theory Spec2Isabelle
  imports Main "HOL-Library.Sublist"
begin

section \<open>The real-time messenger server (src/server.js, the socket.io part)\<close>

text \<open>
  The server keeps its durable data in three MongoDB collections (User, Chat, Message)
  and its live data in socket.io: the connected sockets and the rooms each has joined.
  The model threads one state record through every handler.  What a handler emits is
  recorded per receiving socket, in the order of emission.

  Identifiers are JavaScript strings (ObjectIds in their string form, socket ids), and a
  collection is a map from the id to the document.  A message's \<open>_id\<close> is its position
  in the Message collection, which only grows.  Dates are natural numbers handed to the
  handler that reads the clock.

  The handlers are \<open>async\<close> functions.  Each is modelled twice: as one function that runs
  the handler from its first statement to its last with nothing in between, and, in the
  runs of the server, as the pieces between its \<open>await\<close>s, which other inputs may separate.
\<close>

type_synonym user_id = string
type_synonym chat_id = string
type_synonym socket_id = string
type_synonym message_id = nat
type_synonym time = nat

subsection \<open>Schemas\<close>

text \<open>UserSchema: the fields the socket handlers read or write.\<close>

record user =
  username :: string
  online :: bool
  lastSeen :: time
  socketId :: "socket_id option"

record last_message =
  lm_text :: "string option"
  lm_sender :: user_id
  lm_timestamp :: time

text \<open>ChatSchema.\<close>

record chat =
  participants :: "user_id list"
  lastMessage :: "last_message option"

text \<open>MessageSchema: \<open>status\<close> is an enum of three strings with default \<open>sent\<close>.\<close>

datatype status = Sent | Delivered | Read

record message =
  m_chatId :: chat_id
  m_sender :: user_id
  m_text :: "string option"
  m_messageType :: string
  m_status :: status
  m_createdAt :: time

subsection \<open>Sockets, events and the state\<close>

text \<open>
  A socket after \<open>socketAuth\<close>: its id, \<open>socket.userId\<close>, \<open>socket.user.username\<close>
  and the rooms it has joined.
\<close>

record socket =
  sid :: socket_id
  userId :: user_id
  user_username :: string
  rooms :: "chat_id set"

text \<open>The object built as \<open>formattedMessage\<close> in the \<open>send_message\<close> handler.\<close>

record formatted_message =
  f_id :: message_id
  f_text :: "string option"
  f_sent :: bool
  f_time :: time
  f_status :: status
  f_messageType :: string
  f_sender :: string
  f_senderId :: user_id

text \<open>The outbound events, one constructor per event name.\<close>

datatype event =
    NewMessage formatted_message
  | MessageSent formatted_message
  | ErrorEvent string
  | MessageStatusUpdated message_id status
  | UserTyping user_id string
  | UserStopTyping user_id
  | IncomingCall user_id string chat_id string
  | CallAccepted user_id
  | CallDeclined user_id
  | CallEnded user_id
  | UserOffline user_id

text \<open>The payload of \<open>send_message\<close>; an absent field is \<open>None\<close>.\<close>

record send_data =
  d_chatId :: chat_id
  d_text :: "string option"
  d_messageType :: "string option"

text \<open>The payload of \<open>start_call\<close>.\<close>

record call_data =
  cd_chatId :: chat_id
  cd_callType :: string

text \<open>
  A callback registered with \<open>setTimeout\<close> by \<open>send_message\<close>, with what it closes
  over.
\<close>

record timer =
  t_message :: message_id
  t_chatId :: chat_id
  t_socket :: socket_id

text \<open>
  A handler suspended at an \<open>await\<close>, with what it closes over.  The awaited operation
  takes effect, and the handler goes on to its next \<open>await\<close>, when the task is resumed.
\<close>

datatype task =
    ConnectionUpdate socket
  | ConnectionFind socket
  | SendFindChat socket send_data time
  | SendSave socket send_data time chat
  | SendPopulate socket send_data time chat message_id
  | SendChatSave socket send_data time chat message_id "user option"
  | DisconnectUpdate socket time
  | TimeoutUpdate timer

text \<open>
  \<open>sockets\<close> holds the connected sockets; \<open>listeners\<close> those among them on which the
  connection handler has registered its event listeners.
\<close>

record state =
  users :: "user_id \<rightharpoonup> user"
  chats :: "chat_id \<rightharpoonup> chat"
  messages :: "message list"
  sockets :: "socket_id \<rightharpoonup> socket"
  listeners :: "socket_id set"
  inbox :: "socket_id \<Rightarrow> event list"
  timers :: "timer list"
  tasks :: "task list"

subsection \<open>socket.io emitters\<close>

text \<open>\<open>socket.emit(ev)\<close>: to the socket itself.\<close>

definition emit :: "state \<Rightarrow> socket_id \<Rightarrow> event \<Rightarrow> state" where
  "emit s x ev = s\<lparr>inbox := (inbox s)(x := inbox s x @ [ev])\<rparr>"

text \<open>Whether socket \<open>y\<close> is connected and has joined \<open>room\<close>.\<close>

definition in_room :: "state \<Rightarrow> chat_id \<Rightarrow> socket_id \<Rightarrow> bool" where
  "in_room s room y = (case sockets s y of None \<Rightarrow> False | Some k \<Rightarrow> room \<in> rooms k)"

text \<open>\<open>socket.to(room).emit(ev)\<close>: to every socket in the room but the sending one.\<close>

definition to_emit :: "state \<Rightarrow> socket_id \<Rightarrow> chat_id \<Rightarrow> event \<Rightarrow> state" where
  "to_emit s x room ev =
     s\<lparr>inbox := (\<lambda>y. if y \<noteq> x \<and> in_room s room y then inbox s y @ [ev] else inbox s y)\<rparr>"

text \<open>\<open>socket.broadcast.emit(ev)\<close>: to every connected socket but the sending one.\<close>

definition broadcast_emit :: "state \<Rightarrow> socket_id \<Rightarrow> event \<Rightarrow> state" where
  "broadcast_emit s x ev =
     s\<lparr>inbox := (\<lambda>y. if y \<noteq> x \<and> sockets s y \<noteq> None then inbox s y @ [ev] else inbox s y)\<rparr>"

subsection \<open>Mongoose calls\<close>

text \<open>\<open>User.findByIdAndUpdate\<close>: updates the document when it exists, else does nothing.\<close>

definition User_findByIdAndUpdate :: "state \<Rightarrow> user_id \<Rightarrow> (user \<Rightarrow> user) \<Rightarrow> state" where
  "User_findByIdAndUpdate s u f =
     (case users s u of None \<Rightarrow> s | Some usr \<Rightarrow> s\<lparr>users := (users s)(u \<mapsto> f usr)\<rparr>)"

text \<open>\<open>Message.findByIdAndUpdate(id, { status })\<close>.\<close>

definition Message_findByIdAndUpdate :: "state \<Rightarrow> message_id \<Rightarrow> status \<Rightarrow> state" where
  "Message_findByIdAndUpdate s i st =
     (if i < length (messages s)
      then s\<lparr>messages := (messages s)[i := (messages s ! i)\<lparr>m_status := st\<rparr>]\<rparr>
      else s)"

text \<open>
  Mongoose casts the id given to \<open>findById\<close> to an ObjectId before it queries, and the
  cast accepts a string of 24 hexadecimal digits or of 12 characters; any other string
  makes the query throw a cast error.
\<close>

definition hex_digit :: "char \<Rightarrow> bool" where
  "hex_digit c = (c \<in> set ''0123456789abcdefABCDEF'')"

definition is_ObjectId :: "string \<Rightarrow> bool" where
  "is_ObjectId x = (length x = 12 \<or> (length x = 24 \<and> list_all hex_digit x))"

datatype error = CastError | ValidationError | TypeError

text \<open>\<open>Chat.findById(chatId)\<close>: throws on a malformed id, else the chat or nothing.\<close>

definition Chat_findById :: "state \<Rightarrow> chat_id \<Rightarrow> error + chat option" where
  "Chat_findById s c = (if is_ObjectId c then Inr (chats s c) else Inl CastError)"

text \<open>
  Validation on \<open>message.save()\<close>: \<open>text\<close> is \<open>required\<close> (Mongoose rejects an absent
  and an empty string) and \<open>messageType\<close> must be one of the enum's values.
\<close>

definition messageType_enum :: "string list" where
  "messageType_enum = [''text'', ''call'', ''system'']"

definition validate :: "message \<Rightarrow> bool" where
  "validate m =
     ((case m_text m of None \<Rightarrow> False | Some t \<Rightarrow> t \<noteq> []) \<and>
      m_messageType m \<in> set messageType_enum)"

text \<open>\<open>message.save()\<close>: throws on invalid documents, else stores the document.\<close>

definition Message_save :: "state \<Rightarrow> message \<Rightarrow> error + state" where
  "Message_save s m =
     (if validate m then Inr (s\<lparr>messages := messages s @ [m]\<rparr>) else Inl ValidationError)"

subsection \<open>The connection handler\<close>

text \<open>
  \<open>socketAuth\<close> after the token is decoded to a user id: the user must exist; the socket
  starts in the room named by its own id, as every socket.io socket does.
\<close>

definition socketAuth :: "state \<Rightarrow> socket_id \<Rightarrow> user_id \<Rightarrow> socket option" where
  "socketAuth s x u =
     (case users s u of
        None \<Rightarrow> None
      | Some usr \<Rightarrow> Some \<lparr>sid = x, userId = u, user_username = username usr, rooms = {x}\<rparr>)"

text \<open>The chats \<open>Chat.find({ participants: u })\<close> returns, as the set of their ids.\<close>

definition userChats :: "state \<Rightarrow> user_id \<Rightarrow> chat_id set" where
  "userChats s u =
     {c. case chats s c of None \<Rightarrow> False | Some ch \<Rightarrow> u \<in> set (participants ch)}"

text \<open>
  \<open>io.on('connection')\<close>, run from its first statement to its last on a socket that has
  just connected: mark the user online with this socket id, join the chats' rooms.
\<close>

definition connection :: "state \<Rightarrow> socket \<Rightarrow> state" where
  "connection s socket =
     (let s1 = User_findByIdAndUpdate s (userId socket)
                 (\<lambda>usr. usr\<lparr>online := True, socketId := Some (sid socket)\<rparr>)
      in s1\<lparr>sockets := (sockets s1)(sid socket \<mapsto>
               socket\<lparr>rooms := rooms socket \<union> userChats s1 (userId socket)\<rparr>)\<rparr>)"

text \<open>
  The pieces of the connection handler.  The first \<open>await\<close> (line 513) is the update of
  the user; the second (line 519) the search for the user's chats, after which the rooms
  are joined and the listeners registered (lines 520 to 647).  Joining and registering do
  nothing observable on a socket that has closed meanwhile.
\<close>

definition connection_update :: "state \<Rightarrow> socket \<Rightarrow> state" where
  "connection_update s socket =
     User_findByIdAndUpdate s (userId socket)
       (\<lambda>usr. usr\<lparr>online := True, socketId := Some (sid socket)\<rparr>)"

definition connection_join :: "state \<Rightarrow> socket \<Rightarrow> state" where
  "connection_join s socket =
     (case sockets s (sid socket) of
        None \<Rightarrow> s
      | Some k \<Rightarrow>
          s\<lparr>sockets := (sockets s)(sid socket \<mapsto>
               k\<lparr>rooms := rooms k \<union> userChats s (userId socket)\<rparr>),
            listeners := insert (sid socket) (listeners s)\<rparr>)"

subsection \<open>send_message\<close>

definition format_message ::
    "message_id \<Rightarrow> message \<Rightarrow> string \<Rightarrow> user_id \<Rightarrow> formatted_message" where
  "format_message i m sender_username uid =
     \<lparr>f_id = i, f_text = m_text m, f_sent = False, f_time = m_createdAt m,
      f_status = Delivered, f_messageType = m_messageType m,
      f_sender = sender_username, f_senderId = uid\<rparr>"

text \<open>\<open>new Message({ chatId, sender, text, messageType })\<close>, with the schema's defaults.\<close>

definition new_Message :: "socket \<Rightarrow> send_data \<Rightarrow> time \<Rightarrow> message" where
  "new_Message socket data now =
     \<lparr>m_chatId = d_chatId data, m_sender = userId socket, m_text = d_text data,
      m_messageType = (case d_messageType data of None \<Rightarrow> ''text'' | Some t \<Rightarrow> t),
      m_status = Sent, m_createdAt = now\<rparr>"

text \<open>\<open>chat.lastMessage = { text, sender, timestamp }; await chat.save()\<close>.\<close>

definition save_lastMessage :: "state \<Rightarrow> socket \<Rightarrow> send_data \<Rightarrow> time \<Rightarrow> chat \<Rightarrow> state" where
  "save_lastMessage s socket data now chat =
     s\<lparr>chats := (chats s)(d_chatId data \<mapsto>
          chat\<lparr>lastMessage := Some \<lparr>lm_text = d_text data, lm_sender = userId socket,
                                    lm_timestamp = now\<rparr>\<rparr>)\<rparr>"

text \<open>
  Lines 554 to 580: format the message, emit it to the room and to the sender, set the
  timer.  \<open>message.sender.username\<close> throws when the populated sender is null.
\<close>

definition fan_out ::
    "state \<Rightarrow> socket \<Rightarrow> send_data \<Rightarrow> time \<Rightarrow> message_id \<Rightarrow> user option
      \<Rightarrow> (error \<times> state) + state" where
  "fan_out s socket data now message_id sender =
     (case sender of
        None \<Rightarrow> Inl (TypeError, s)
      | Some usr \<Rightarrow>
          (let formattedMessage =
                 format_message message_id (new_Message socket data now) (username usr)
                   (userId socket);
               s3 = to_emit s (sid socket) (d_chatId data) (NewMessage formattedMessage);
               s4 = emit s3 (sid socket) (MessageSent formattedMessage)
           in Inr (s4\<lparr>timers := timers s4 @
                 [\<lparr>t_message = message_id, t_chatId = d_chatId data,
                   t_socket = sid socket\<rparr>]\<rparr>)))"

text \<open>
  The body of the \<open>try\<close> block, run from its first statement to its last.
  \<open>Inl (e, s')\<close> is a throw of \<open>e\<close> that leaves the state \<open>s'\<close> behind; \<open>Inr s'\<close> is a
  normal return.
\<close>

definition send_message_try ::
    "state \<Rightarrow> socket \<Rightarrow> send_data \<Rightarrow> time \<Rightarrow> (error \<times> state) + state" where
  "send_message_try s socket data now =
     (case Chat_findById s (d_chatId data) of
        Inl e \<Rightarrow> Inl (e, s)
      | Inr None \<Rightarrow> Inr (emit s (sid socket) (ErrorEvent ''Access denied''))
      | Inr (Some chat) \<Rightarrow>
          (if userId socket \<notin> set (participants chat)
           then Inr (emit s (sid socket) (ErrorEvent ''Access denied''))
           else
             (case Message_save s (new_Message socket data now) of
                Inl e \<Rightarrow> Inl (e, s)
              | Inr s1 \<Rightarrow>
                  fan_out (save_lastMessage s1 socket data now chat) socket data now
                    (length (messages s)) (users s1 (userId socket)))))"

text \<open>The \<open>catch\<close>: any throw becomes one error event to the sender.\<close>

definition catch :: "socket \<Rightarrow> (error \<times> state) + state \<Rightarrow> state" where
  "catch socket r =
     (case r of
        Inl (e, s') \<Rightarrow> emit s' (sid socket) (ErrorEvent ''Failed to send message'')
      | Inr s' \<Rightarrow> s')"

text \<open>The handler, run from its first statement to its last.\<close>

definition send_message :: "state \<Rightarrow> socket \<Rightarrow> send_data \<Rightarrow> time \<Rightarrow> state" where
  "send_message s socket data now = catch socket (send_message_try s socket data now)"

text \<open>The \<open>setTimeout\<close> callback, run one second after a successful send.\<close>

definition delivered_timeout :: "state \<Rightarrow> timer \<Rightarrow> state" where
  "delivered_timeout s t =
     to_emit (Message_findByIdAndUpdate s (t_message t) Delivered) (t_socket t) (t_chatId t)
       (MessageStatusUpdated (t_message t) Delivered)"

subsection \<open>Typing indicators and call signalling\<close>

text \<open>
  Six handlers, each a single \<open>socket.to(chatId).emit\<close>.  The payloads of all but
  \<open>start_call\<close> are read for their \<open>chatId\<close> only, which is passed as such.
\<close>

definition typing_start :: "state \<Rightarrow> socket \<Rightarrow> chat_id \<Rightarrow> state" where
  "typing_start s socket chatId =
     to_emit s (sid socket) chatId (UserTyping (userId socket) (user_username socket))"

definition typing_stop :: "state \<Rightarrow> socket \<Rightarrow> chat_id \<Rightarrow> state" where
  "typing_stop s socket chatId = to_emit s (sid socket) chatId (UserStopTyping (userId socket))"

definition start_call :: "state \<Rightarrow> socket \<Rightarrow> call_data \<Rightarrow> state" where
  "start_call s socket data =
     to_emit s (sid socket) (cd_chatId data)
       (IncomingCall (userId socket) (user_username socket) (cd_chatId data) (cd_callType data))"

definition accept_call :: "state \<Rightarrow> socket \<Rightarrow> chat_id \<Rightarrow> state" where
  "accept_call s socket chatId = to_emit s (sid socket) chatId (CallAccepted (userId socket))"

definition decline_call :: "state \<Rightarrow> socket \<Rightarrow> chat_id \<Rightarrow> state" where
  "decline_call s socket chatId = to_emit s (sid socket) chatId (CallDeclined (userId socket))"

definition end_call :: "state \<Rightarrow> socket \<Rightarrow> chat_id \<Rightarrow> state" where
  "end_call s socket chatId = to_emit s (sid socket) chatId (CallEnded (userId socket))"

subsection \<open>disconnect\<close>

text \<open>
  socket.io takes the socket out of its rooms and of the server's socket table before
  the \<open>disconnect\<close> event fires; the handler then marks the user offline and tells
  every other connected socket.  First the handler's part after its \<open>await\<close> (line 637),
  then the closing and the handler run with nothing in between.
\<close>

definition disconnect_update :: "state \<Rightarrow> socket \<Rightarrow> time \<Rightarrow> state" where
  "disconnect_update s socket now =
     broadcast_emit
       (User_findByIdAndUpdate s (userId socket)
          (\<lambda>usr. usr\<lparr>online := False, lastSeen := now, socketId := None\<rparr>))
       (sid socket) (UserOffline (userId socket))"

definition disconnect :: "state \<Rightarrow> socket \<Rightarrow> time \<Rightarrow> state" where
  "disconnect s socket now =
     (let s0 = s\<lparr>sockets := (sockets s)(sid socket := None)\<rparr>;
          s1 = User_findByIdAndUpdate s0 (userId socket)
                 (\<lambda>usr. usr\<lparr>online := False, lastSeen := now, socketId := None\<rparr>)
      in broadcast_emit s1 (sid socket) (UserOffline (userId socket)))"

subsection \<open>The HTTP login route\<close>


subsection \<open>Runs of the server\<close>

text \<open>
  The inputs of the socket layer: a connection that has passed \<open>socketAuth\<close>, with the
  user id its token decodes to; the inbound events of a socket; the closing of a socket;
  the firing of the oldest pending timer; and the completion of the operation that the
  \<open>n\<close>-th suspended handler awaits.
\<close>

datatype input =
    Connect socket_id user_id
  | SendMessage socket_id send_data time
  | TypingStart socket_id chat_id
  | TypingStop socket_id chat_id
  | StartCall socket_id call_data
  | AcceptCall socket_id chat_id
  | DeclineCall socket_id chat_id
  | EndCall socket_id chat_id
  | Disconnect socket_id time
  | Timeout
  | Resume nat

text \<open>
  An inbound event runs a handler only on a connected socket whose listeners are
  registered; before that, the event is lost.
\<close>

definition on :: "state \<Rightarrow> socket_id \<Rightarrow> (socket \<Rightarrow> state) \<Rightarrow> state" where
  "on s x handler =
     (case sockets s x of
        None \<Rightarrow> s
      | Some socket \<Rightarrow> if x \<in> listeners s then handler socket else s)"

definition suspend :: "state \<Rightarrow> task \<Rightarrow> state" where
  "suspend s t = s\<lparr>tasks := tasks s @ [t]\<rparr>"

text \<open>
  Resuming a task: the awaited operation takes effect and the handler runs on to its
  next \<open>await\<close>, where it is suspended again, or to its end.
\<close>

fun resume :: "state \<Rightarrow> task \<Rightarrow> state \<times> task option" where
  "resume s (ConnectionUpdate socket) =
     (connection_update s socket, Some (ConnectionFind socket))"
| "resume s (ConnectionFind socket) = (connection_join s socket, None)"
| "resume s (SendFindChat socket data now) =
     (case Chat_findById s (d_chatId data) of
        Inl e \<Rightarrow> (catch socket (Inl (e, s)), None)
      | Inr None \<Rightarrow> (emit s (sid socket) (ErrorEvent ''Access denied''), None)
      | Inr (Some chat) \<Rightarrow>
          (if userId socket \<notin> set (participants chat)
           then (emit s (sid socket) (ErrorEvent ''Access denied''), None)
           else (s, Some (SendSave socket data now chat))))"
| "resume s (SendSave socket data now chat) =
     (case Message_save s (new_Message socket data now) of
        Inl e \<Rightarrow> (catch socket (Inl (e, s)), None)
      | Inr s1 \<Rightarrow> (s1, Some (SendPopulate socket data now chat (length (messages s)))))"
| "resume s (SendPopulate socket data now chat message_id) =
     (s, Some (SendChatSave socket data now chat message_id (users s (userId socket))))"
| "resume s (SendChatSave socket data now chat message_id sender) =
     (catch socket
        (fan_out (save_lastMessage s socket data now chat) socket data now message_id sender),
      None)"
| "resume s (DisconnectUpdate socket now) = (disconnect_update s socket now, None)"
| "resume s (TimeoutUpdate t) = (delivered_timeout s t, None)"

text \<open>
  socket.io never hands out the id of a connected socket again.  A connection puts the
  socket into the table and starts the connection handler, which suspends at once.  A
  closing takes the socket out of the table and starts the disconnect handler if, and
  only if, the connection handler has registered it.
\<close>

fun step :: "state \<Rightarrow> input \<Rightarrow> state" where
  "step s (Connect x u) =
     (if sockets s x \<noteq> None then s
      else case socketAuth s x u of
             None \<Rightarrow> s
           | Some socket \<Rightarrow>
               suspend (s\<lparr>sockets := (sockets s)(x \<mapsto> socket)\<rparr>) (ConnectionUpdate socket))"
| "step s (SendMessage x data now) =
     on s x (\<lambda>socket. suspend s (SendFindChat socket data now))"
| "step s (TypingStart x c) = on s x (\<lambda>socket. typing_start s socket c)"
| "step s (TypingStop x c) = on s x (\<lambda>socket. typing_stop s socket c)"
| "step s (StartCall x data) = on s x (\<lambda>socket. start_call s socket data)"
| "step s (AcceptCall x c) = on s x (\<lambda>socket. accept_call s socket c)"
| "step s (DeclineCall x c) = on s x (\<lambda>socket. decline_call s socket c)"
| "step s (EndCall x c) = on s x (\<lambda>socket. end_call s socket c)"
| "step s (Disconnect x now) =
     (case sockets s x of
        None \<Rightarrow> s
      | Some socket \<Rightarrow>
          (let s' = s\<lparr>sockets := (sockets s)(x := None), listeners := listeners s - {x}\<rparr>
           in if x \<in> listeners s then suspend s' (DisconnectUpdate socket now) else s'))"
| "step s Timeout =
     (case timers s of [] \<Rightarrow> s | t # ts \<Rightarrow> suspend (s\<lparr>timers := ts\<rparr>) (TimeoutUpdate t))"
| "step s (Resume n) =
     (if n < length (tasks s)
      then (case resume s (tasks s ! n) of
              (s', None) \<Rightarrow> s'\<lparr>tasks := take n (tasks s) @ drop (Suc n) (tasks s)\<rparr>
            | (s', Some t) \<Rightarrow> s'\<lparr>tasks := (tasks s)[n := t]\<rparr>)
      else s)"

fun run :: "state \<Rightarrow> input list \<Rightarrow> state" where
  "run s [] = s"
| "run s (i # is) = run (step s i) is"

text \<open>
  The inputs of a handler that runs from its first statement to its last with nothing in
  between, when the task it suspends as is the \<open>n\<close>-th.
\<close>

definition connect :: "nat \<Rightarrow> socket_id \<Rightarrow> user_id \<Rightarrow> input list" where
  "connect n x u = [Connect x u, Resume n, Resume n]"

definition send :: "nat \<Rightarrow> socket_id \<Rightarrow> send_data \<Rightarrow> time \<Rightarrow> input list" where
  "send n x data now = [SendMessage x data now, Resume n, Resume n, Resume n, Resume n]"

definition close :: "nat \<Rightarrow> socket_id \<Rightarrow> time \<Rightarrow> input list" where
  "close n x now = [Disconnect x now, Resume n]"

definition timeout :: "nat \<Rightarrow> input list" where
  "timeout n = [Timeout, Resume n]"

subsection \<open>Orderings and predicates used in the properties\<close>




text \<open>
  When \<open>send_message\<close> gets through: the chat id is well-formed and names a chat, the
  sender participates in it, the document is valid and the sender's User document is
  found.
\<close>

definition send_ok :: "state \<Rightarrow> socket \<Rightarrow> send_data \<Rightarrow> time \<Rightarrow> bool" where
  "send_ok s socket data now =
     ((case Chat_findById s (d_chatId data) of
         Inl e \<Rightarrow> False
       | Inr None \<Rightarrow> False
       | Inr (Some chat) \<Rightarrow> userId socket \<in> set (participants chat)) \<and>
      validate (new_Message socket data now) \<and>
      users s (userId socket) \<noteq> None)"



subsection \<open>A small database for concrete runs\<close>

definition offline_user :: "string \<Rightarrow> user" where
  "offline_user name = \<lparr>username = name, online = False, lastSeen = 0, socketId = None\<rparr>"

text \<open>The id of a chat, and a string that is no ObjectId.\<close>

definition c1 :: chat_id where
  "c1 = ''64b7f0a1c2d3e4f5a6b7c8d9''"

definition zzz :: chat_id where
  "zzz = ''zzz''"

text \<open>Four users; the first three share the chat \<open>c1\<close>; nobody is connected.\<close>

definition state0 :: state where
  "state0 =
     \<lparr>users = [''u1'' \<mapsto> offline_user ''Alice'', ''u2'' \<mapsto> offline_user ''Bob'',
               ''u3'' \<mapsto> offline_user ''Carol'', ''u4'' \<mapsto> offline_user ''Dave''],
      chats = [c1 \<mapsto> \<lparr>participants = [''u1'', ''u2'', ''u3''], lastMessage = None\<rparr>],
      messages = [], sockets = Map.empty, listeners = {}, inbox = (\<lambda>_. []), timers = [],
      tasks = []\<rparr>"

definition hi :: send_data where
  "hi = \<lparr>d_chatId = c1, d_text = Some ''hi'', d_messageType = None\<rparr>"

text \<open>What \<open>u1\<close>'s socket \<open>s1\<close> is once its connection handler has run on \<open>state0\<close>.\<close>

definition socket1 :: socket where
  "socket1 = \<lparr>sid = ''s1'', userId = ''u1'', user_username = ''Alice'', rooms = {''s1'', c1}\<rparr>"

text \<open>The same message addressed to the malformed id.\<close>

definition hi_zzz :: send_data where
  "hi_zzz = \<lparr>d_chatId = zzz, d_text = Some ''hi'', d_messageType = None\<rparr>"

text \<open>The formatted message of \<open>u1\<close>'s first \<open>hi\<close>, sent at time 10.\<close>

definition hi_formatted :: formatted_message where
  "hi_formatted =
     \<lparr>f_id = 0, f_text = Some ''hi'', f_sent = False, f_time = 10, f_status = Delivered,
      f_messageType = ''text'', f_sender = ''Alice'', f_senderId = ''u1''\<rparr>"

section \<open>Properties\<close>

lemmas ev_defs = state0_def offline_user_def hi_def hi_zzz_def c1_def zzz_def on_def
  suspend_def socketAuth_def connection_def connection_update_def connection_join_def
  User_findByIdAndUpdate_def userChats_def send_message_def send_message_try_def catch_def
  fan_out_def save_lastMessage_def Chat_findById_def is_ObjectId_def hex_digit_def
  new_Message_def Message_save_def validate_def messageType_enum_def format_message_def
  emit_def to_emit_def in_room_def broadcast_emit_def delivered_timeout_def
  Message_findByIdAndUpdate_def typing_start_def typing_stop_def start_call_def
  accept_call_def decline_call_def end_call_def disconnect_def disconnect_update_def
  connect_def send_def close_def timeout_def Let_def

lemmas relay_defs = typing_start_def typing_stop_def start_call_def accept_call_def
  decline_call_def end_call_def to_emit_def

lemma run_append: "run s (es1 @ es2) = run (run s es1) es2"
  by (induction es1 arbitrary: s) simp_all

subsection \<open>Sending without being a participant\<close>

text \<open>
  C3, as the claim states it, fails: \<open>zzz\<close> is not a chat that \<open>u1\<close> is a member of, yet
  the send is not answered with \<open>Access denied\<close>.  The id is no ObjectId, the lookup throws
  before the membership check, and the \<open>catch\<close> answers \<open>Failed to send message\<close>.
\<close>

theorem not_member_counterexample:
  "chats (run state0 (connect 0 ''s1'' ''u1'')) zzz = None \<and>
   inbox (run state0 (connect 0 ''s1'' ''u1'' @ send 0 ''s1'' hi_zzz 10)) ''s1''
     = [ErrorEvent ''Failed to send message''] \<and>
   inbox (send_message (run state0 (connect 0 ''s1'' ''u1'')) socket1 hi_zzz 10) ''s1''
     = [ErrorEvent ''Failed to send message'']"
  by (simp add: ev_defs socket1_def)

text \<open>
  C3, amended.  When the chat does not exist or the sender is not among its participants,
  \<open>send_message\<close> changes nothing but the sender's own inbox, which receives one error
  event: no message is stored, the chat's summary is untouched, no timer is set and no
  other socket receives anything.  The error is \<open>Access denied\<close> when the chat id is a
  well-formed ObjectId and \<open>Failed to send message\<close> when it is not.
\<close>

theorem send_message_not_member:
  assumes "case chats s (d_chatId data) of
             None \<Rightarrow> True
           | Some chat \<Rightarrow> userId socket \<notin> set (participants chat)"
  shows "send_message s socket data now =
         s\<lparr>inbox := (inbox s)(sid socket := inbox s (sid socket) @
              [ErrorEvent (if is_ObjectId (d_chatId data) then ''Access denied''
                           else ''Failed to send message'')])\<rparr>"
  using assms
  by (simp add: send_message_def send_message_try_def catch_def Chat_findById_def emit_def
      split: option.splits)

theorem send_message_not_member_witness:
  "messages (run state0 (connect 0 ''s4'' ''u4'' @ send 0 ''s4'' hi 10)) = [] \<and>
   inbox (send_message (run state0 (connect 0 ''s4'' ''u4''))
      \<lparr>sid = ''s4'', userId = ''u4'', user_username = ''Dave'', rooms = {''s4''}\<rparr> hi 10) ''s4''
     = [ErrorEvent ''Access denied'']"
  using send_message_not_member [where s = "run state0 (connect 0 ''s4'' ''u4'')"
      and data = hi and now = 10
      and socket = "\<lparr>sid = ''s4'', userId = ''u4'', user_username = ''Dave'',
                      rooms = {''s4''}\<rparr>"]
  by (simp add: ev_defs)

subsection \<open>Sending an empty text\<close>

text \<open>
  C9.  A \<open>send_message\<close> whose text is absent or empty fails: the state is left as it
  was but for the sender's inbox, which receives exactly one event, an error.  So no
  message is stored, nothing is fanned out and no \<open>message_sent\<close> is emitted.  This holds
  for every message type, so in particular for \<open>text\<close>.
\<close>

theorem send_message_empty_text:
  assumes "d_text data = None \<or> d_text data = Some []"
  shows "\<exists>msg. send_message s socket data now =
           s\<lparr>inbox := (inbox s)(sid socket := inbox s (sid socket) @ [ErrorEvent msg])\<rparr>"
  using assms
  by (auto simp add: send_message_def send_message_try_def catch_def Chat_findById_def
      emit_def Message_save_def validate_def new_Message_def split: option.splits)

theorem send_message_empty_text_witness:
  "messages (send_message (run state0 (connect 0 ''s1'' ''u1'')) socket1
      \<lparr>d_chatId = c1, d_text = Some [], d_messageType = Some ''text''\<rparr> 10) = [] \<and>
   inbox (send_message (run state0 (connect 0 ''s1'' ''u1'')) socket1
      \<lparr>d_chatId = c1, d_text = Some [], d_messageType = Some ''text''\<rparr> 10) ''s1'' =
      [ErrorEvent ''Failed to send message'']"
  using send_message_empty_text [where s = "run state0 (connect 0 ''s1'' ''u1'')"
      and data = "\<lparr>d_chatId = c1, d_text = Some [], d_messageType = Some ''text''\<rparr>"
      and socket = socket1 and now = 10]
  by (simp add: ev_defs socket1_def)

subsection \<open>The relays check no membership\<close>

text \<open>
  C10.  Each of the six relay handlers appends its outbound event to the inbox of every
  connected socket that has joined the room named in the payload, the sending socket
  excepted, and to no other inbox.  The Chat collection is never consulted: whether the
  sender participates in that chat plays no part.
\<close>

theorem relay_without_membership_check:
  "inbox (typing_start s socket c) y =
     (if y \<noteq> sid socket \<and> in_room s c y
      then inbox s y @ [UserTyping (userId socket) (user_username socket)] else inbox s y) \<and>
   inbox (typing_stop s socket c) y =
     (if y \<noteq> sid socket \<and> in_room s c y
      then inbox s y @ [UserStopTyping (userId socket)] else inbox s y) \<and>
   inbox (start_call s socket data) y =
     (if y \<noteq> sid socket \<and> in_room s (cd_chatId data) y
      then inbox s y @ [IncomingCall (userId socket) (user_username socket) (cd_chatId data)
                          (cd_callType data)]
      else inbox s y) \<and>
   inbox (accept_call s socket c) y =
     (if y \<noteq> sid socket \<and> in_room s c y
      then inbox s y @ [CallAccepted (userId socket)] else inbox s y) \<and>
   inbox (decline_call s socket c) y =
     (if y \<noteq> sid socket \<and> in_room s c y
      then inbox s y @ [CallDeclined (userId socket)] else inbox s y) \<and>
   inbox (end_call s socket c) y =
     (if y \<noteq> sid socket \<and> in_room s c y
      then inbox s y @ [CallEnded (userId socket)] else inbox s y)"
  by (simp add: relay_defs)

text \<open>
  \<open>u4\<close> is no participant of \<open>c1\<close>, and its typing indicator reaches \<open>u2\<close> there.
\<close>

theorem relay_without_membership_check_witness:
  "inbox (run state0 (connect 0 ''s2'' ''u2'' @ connect 0 ''s4'' ''u4'' @
      [TypingStart ''s4'' c1])) ''s2'' = [UserTyping ''u4'' ''Dave'']"
proof -
  define s where "s = run state0 (connect 0 ''s2'' ''u2'' @ connect 0 ''s4'' ''u4'')"
  let ?k = "\<lparr>sid = ''s4'', userId = ''u4'', user_username = ''Dave'', rooms = {''s4''}\<rparr>"
  have a: "sockets s ''s4'' = Some ?k \<and> ''s4'' \<in> listeners s" by (simp add: s_def ev_defs)
  have b: "in_room s c1 ''s2'' \<and> inbox s ''s2'' = []" by (simp add: s_def ev_defs)
  have "run state0 (connect 0 ''s2'' ''u2'' @ connect 0 ''s4'' ''u4'' @
      [TypingStart ''s4'' c1]) = step s (TypingStart ''s4'' c1)"
    unfolding s_def by (simp only: run_append run.simps)
  also have "\<dots> = typing_start s ?k c1" using a by (simp add: on_def)
  finally have c: "run state0 (connect 0 ''s2'' ''u2'' @ connect 0 ''s4'' ''u4'' @
      [TypingStart ''s4'' c1]) = typing_start s ?k c1" .
  from relay_without_membership_check [where s = s and socket = ?k and c = c1
      and y = "''s2''"] b
  show ?thesis unfolding c by simp
qed

subsection \<open>Call signalling keeps no session\<close>

text \<open>
  C5, as the claim states it, fails: with no call started, \<open>accept_call\<close> is forwarded to
  the other socket of the room; and a second \<open>start_call\<close> is forwarded like the first,
  the caller receiving no error.
\<close>

theorem call_session_counterexample:
  "inbox (run state0 (connect 0 ''s1'' ''u1'' @ connect 0 ''s2'' ''u2'' @ [AcceptCall ''s1'' c1]))
     ''s2'' = [CallAccepted ''u1''] \<and>
   inbox (run state0 (connect 0 ''s1'' ''u1'' @ connect 0 ''s2'' ''u2'' @
       [StartCall ''s1'' \<lparr>cd_chatId = c1, cd_callType = ''video''\<rparr>,
        StartCall ''s1'' \<lparr>cd_chatId = c1, cd_callType = ''video''\<rparr>])) ''s2''
     = [IncomingCall ''u1'' ''Alice'' c1 ''video'', IncomingCall ''u1'' ''Alice'' c1 ''video''] \<and>
   inbox (run state0 (connect 0 ''s1'' ''u1'' @ connect 0 ''s2'' ''u2'' @
       [StartCall ''s1'' \<lparr>cd_chatId = c1, cd_callType = ''video''\<rparr>,
        StartCall ''s1'' \<lparr>cd_chatId = c1, cd_callType = ''video''\<rparr>])) ''s1'' = []"
  by (simp add: ev_defs)

text \<open>
  C5, amended.  The four call handlers are stateless relays.  Each leaves the state as it
  was but for the inboxes of the other connected sockets of the room, which each receive
  the handler's one event; nothing, so no error either, goes to the calling socket.  This
  holds in every state, so \<open>accept_call\<close> is forwarded with no call started, and a
  repeated \<open>start_call\<close> delivers \<open>incoming_call\<close> a second time.
\<close>

theorem call_signalling_keeps_no_session:
  "start_call s socket data =
     s\<lparr>inbox := (\<lambda>y. if y \<noteq> sid socket \<and> in_room s (cd_chatId data) y
                      then inbox s y @ [IncomingCall (userId socket) (user_username socket)
                                          (cd_chatId data) (cd_callType data)]
                      else inbox s y)\<rparr> \<and>
   accept_call s socket c =
     s\<lparr>inbox := (\<lambda>y. if y \<noteq> sid socket \<and> in_room s c y
                      then inbox s y @ [CallAccepted (userId socket)] else inbox s y)\<rparr> \<and>
   decline_call s socket c =
     s\<lparr>inbox := (\<lambda>y. if y \<noteq> sid socket \<and> in_room s c y
                      then inbox s y @ [CallDeclined (userId socket)] else inbox s y)\<rparr> \<and>
   end_call s socket c =
     s\<lparr>inbox := (\<lambda>y. if y \<noteq> sid socket \<and> in_room s c y
                      then inbox s y @ [CallEnded (userId socket)] else inbox s y)\<rparr> \<and>
   inbox (start_call (start_call s socket data) socket data) y =
     (if y \<noteq> sid socket \<and> in_room s (cd_chatId data) y
      then inbox s y @
        [IncomingCall (userId socket) (user_username socket) (cd_chatId data)
           (cd_callType data),
         IncomingCall (userId socket) (user_username socket) (cd_chatId data)
           (cd_callType data)]
      else inbox s y)"
  by (simp add: relay_defs in_room_def)

theorem call_signalling_keeps_no_session_witness:
  "inbox (accept_call (run state0 (connect 0 ''s1'' ''u1'' @ connect 0 ''s2'' ''u2'')) socket1 c1)
     ''s2'' = [CallAccepted ''u1''] \<and>
   inbox (accept_call (run state0 (connect 0 ''s1'' ''u1'' @ connect 0 ''s2'' ''u2'')) socket1 c1)
     ''s1'' = []"
proof -
  define s where "s = run state0 (connect 0 ''s1'' ''u1'' @ connect 0 ''s2'' ''u2'')"
  have a: "in_room s c1 ''s2'' \<and> inbox s ''s2'' = [] \<and> inbox s ''s1'' = []"
    by (simp add: s_def ev_defs)
  have b: "sid socket1 = ''s1'' \<and> userId socket1 = ''u1''" by (simp add: socket1_def)
  have "accept_call s socket1 c1 =
     s\<lparr>inbox := (\<lambda>y. if y \<noteq> sid socket1 \<and> in_room s c1 y
                      then inbox s y @ [CallAccepted (userId socket1)] else inbox s y)\<rparr>"
    using call_signalling_keeps_no_session [where s = s and socket = socket1 and c = c1]
    by blast
  with a b show ?thesis unfolding s_def [symmetric] by simp
qed

subsection \<open>A send that gets through, and one that does not\<close>

text \<open>
  When the chat is found, the sender participates in it, the document is valid and the
  sender's User document exists, the handler stores the message, rewrites the chat's
  summary, emits \<open>new_message\<close> to the room, \<open>message_sent\<close> to the sender and sets the
  timer.
\<close>

lemma send_message_success:
  assumes "Chat_findById s (d_chatId data) = Inr (Some chat)"
    and "userId socket \<in> set (participants chat)"
    and "validate (new_Message socket data now)"
    and "users s (userId socket) = Some sender"
  shows "send_message s socket data now =
     s\<lparr>messages := messages s @ [new_Message socket data now],
       chats := (chats s)(d_chatId data \<mapsto>
          chat\<lparr>lastMessage := Some \<lparr>lm_text = d_text data, lm_sender = userId socket,
                                    lm_timestamp = now\<rparr>\<rparr>),
       inbox := (\<lambda>y. if y = sid socket
                      then inbox s y @ [MessageSent (format_message (length (messages s))
                             (new_Message socket data now) (username sender) (userId socket))]
                      else if in_room s (d_chatId data) y
                      then inbox s y @ [NewMessage (format_message (length (messages s))
                             (new_Message socket data now) (username sender) (userId socket))]
                      else inbox s y),
       timers := timers s @ [\<lparr>t_message = length (messages s), t_chatId = d_chatId data,
                               t_socket = sid socket\<rparr>]\<rparr>"
  using assms
  by (auto simp add: send_message_def send_message_try_def catch_def fan_out_def
      save_lastMessage_def Message_save_def Let_def emit_def to_emit_def in_room_def
      fun_eq_iff)

text \<open>
  Otherwise the sender receives one error event, nobody else anything, and no timer is set.
\<close>

lemma send_message_failure:
  assumes "\<not> send_ok s socket data now"
  shows "\<exists>msg. inbox (send_message s socket data now) =
           (inbox s)(sid socket := inbox s (sid socket) @ [ErrorEvent msg]) \<and>
         timers (send_message s socket data now) = timers s"
  using assms
  by (auto simp add: send_ok_def send_message_def send_message_try_def catch_def fan_out_def
      save_lastMessage_def Message_save_def emit_def split: option.splits sum.splits)

lemma send_ok_cases:
  assumes "send_ok s socket data now"
  obtains chat sender where "Chat_findById s (d_chatId data) = Inr (Some chat)"
    and "userId socket \<in> set (participants chat)"
    and "validate (new_Message socket data now)"
    and "users s (userId socket) = Some sender"
  using assms by (auto simp add: send_ok_def split: sum.splits option.splits)

lemma send_message_users_sockets:
  "users (send_message s socket data now) = users s \<and>
   sockets (send_message s socket data now) = sockets s"
  by (simp add: send_message_def send_message_try_def catch_def fan_out_def
      save_lastMessage_def Chat_findById_def Message_save_def Let_def emit_def to_emit_def
      split: option.splits sum.splits)

lemma in_room_cong: "sockets s' = sockets s \<Longrightarrow> in_room s' c y = in_room s c y"
  by (simp add: in_room_def)

lemma delivered_timeout_inbox:
  "inbox (delivered_timeout s t) =
     (\<lambda>y. if y \<noteq> t_socket t \<and> in_room s (t_chatId t) y
          then inbox s y @ [MessageStatusUpdated (t_message t) Delivered] else inbox s y)"
  by (rule ext)
    (simp add: delivered_timeout_def Message_findByIdAndUpdate_def to_emit_def in_room_def)

subsection \<open>What the originating socket hears back\<close>

text \<open>
  C7, as the claim states it, fails in both directions.  A \<open>typing_start\<close> from the only
  socket of a room leaves the whole state as it was: no success event and no error event
  reaches anybody.  And one successful \<open>send_message\<close> with a peer in the room produces
  three success events: \<open>message_sent\<close> to the sender, \<open>new_message\<close> to the peer and,
  when the timer fires, \<open>message_status_updated\<close> to the peer.
\<close>

theorem one_acknowledgment_counterexample:
  "run state0 (connect 0 ''s1'' ''u1'' @ [TypingStart ''s1'' c1])
     = run state0 (connect 0 ''s1'' ''u1'') \<and>
   inbox (run state0 (connect 0 ''s1'' ''u1'' @ connect 0 ''s2'' ''u2'' @ send 0 ''s1'' hi 10 @
       timeout 0)) ''s1'' = [MessageSent hi_formatted] \<and>
   inbox (run state0 (connect 0 ''s1'' ''u1'' @ connect 0 ''s2'' ''u2'' @ send 0 ''s1'' hi 10 @
       timeout 0)) ''s2'' = [NewMessage hi_formatted, MessageStatusUpdated 0 Delivered]"
  by (simp add: ev_defs hi_formatted_def fun_eq_iff)

text \<open>
  C7, amended.  \<open>send_message\<close> appends exactly one event to the originating socket's
  inbox.  When the send gets through (\<open>send_ok\<close>), that event is \<open>message_sent\<close>; the
  same message goes as \<open>new_message\<close> to every other connected socket of the room and to
  nobody else; one timer is set, and when it runs it appends \<open>message_status_updated\<close> to
  the inbox of every other connected socket of the room and to no other.  When the send
  does not get through, that event is an error, no other inbox changes and no timer is
  set.  The six relay handlers append nothing to the originating socket's inbox, neither
  a success nor an error, and their one event to the inbox of every other connected socket
  of the room.
\<close>

theorem acknowledgment_of_each_event:
  "(send_ok s socket data now \<longrightarrow>
      (\<exists>fm. inbox (send_message s socket data now) =
               (\<lambda>y. if y = sid socket then inbox s y @ [MessageSent fm]
                    else if in_room s (d_chatId data) y then inbox s y @ [NewMessage fm]
                    else inbox s y)) \<and>
      timers (send_message s socket data now) =
        timers s @ [\<lparr>t_message = length (messages s), t_chatId = d_chatId data,
                      t_socket = sid socket\<rparr>] \<and>
      inbox (delivered_timeout (send_message s socket data now)
          \<lparr>t_message = length (messages s), t_chatId = d_chatId data, t_socket = sid socket\<rparr>) =
        (\<lambda>y. if y \<noteq> sid socket \<and> in_room s (d_chatId data) y
             then inbox (send_message s socket data now) y @
                    [MessageStatusUpdated (length (messages s)) Delivered]
             else inbox (send_message s socket data now) y)) \<and>
   (\<not> send_ok s socket data now \<longrightarrow>
      (\<exists>msg. inbox (send_message s socket data now) =
               (inbox s)(sid socket := inbox s (sid socket) @ [ErrorEvent msg])) \<and>
      timers (send_message s socket data now) = timers s) \<and>
   inbox (typing_start s socket c) =
     (\<lambda>y. if y \<noteq> sid socket \<and> in_room s c y
          then inbox s y @ [UserTyping (userId socket) (user_username socket)]
          else inbox s y) \<and>
   inbox (typing_stop s socket c) =
     (\<lambda>y. if y \<noteq> sid socket \<and> in_room s c y
          then inbox s y @ [UserStopTyping (userId socket)] else inbox s y) \<and>
   inbox (start_call s socket cd) =
     (\<lambda>y. if y \<noteq> sid socket \<and> in_room s (cd_chatId cd) y
          then inbox s y @ [IncomingCall (userId socket) (user_username socket)
                              (cd_chatId cd) (cd_callType cd)]
          else inbox s y) \<and>
   inbox (accept_call s socket c) =
     (\<lambda>y. if y \<noteq> sid socket \<and> in_room s c y
          then inbox s y @ [CallAccepted (userId socket)] else inbox s y) \<and>
   inbox (decline_call s socket c) =
     (\<lambda>y. if y \<noteq> sid socket \<and> in_room s c y
          then inbox s y @ [CallDeclined (userId socket)] else inbox s y) \<and>
   inbox (end_call s socket c) =
     (\<lambda>y. if y \<noteq> sid socket \<and> in_room s c y
          then inbox s y @ [CallEnded (userId socket)] else inbox s y)"
proof -
  let ?s' = "send_message s socket data now"
  let ?t = "\<lparr>t_message = length (messages s), t_chatId = d_chatId data, t_socket = sid socket\<rparr>"
  have room: "in_room ?s' c y = in_room s c y" for c y
    by (rule in_room_cong) (simp add: send_message_users_sockets)
  have later: "inbox (delivered_timeout ?s' ?t) =
        (\<lambda>y. if y \<noteq> sid socket \<and> in_room s (d_chatId data) y
             then inbox ?s' y @ [MessageStatusUpdated (length (messages s)) Delivered]
             else inbox ?s' y)"
    by (rule ext) (simp add: delivered_timeout_inbox room)
  have ok: "(\<exists>fm. inbox ?s' =
               (\<lambda>y. if y = sid socket then inbox s y @ [MessageSent fm]
                    else if in_room s (d_chatId data) y then inbox s y @ [NewMessage fm]
                    else inbox s y)) \<and>
      timers ?s' = timers s @ [?t]" if "send_ok s socket data now"
  proof -
    from that obtain chat sender where *: "Chat_findById s (d_chatId data) = Inr (Some chat)"
      "userId socket \<in> set (participants chat)" "validate (new_Message socket data now)"
      "users s (userId socket) = Some sender"
      by (rule send_ok_cases)
    have "inbox ?s' =
         (\<lambda>y. if y = sid socket
              then inbox s y @ [MessageSent (format_message (length (messages s))
                     (new_Message socket data now) (username sender) (userId socket))]
              else if in_room s (d_chatId data) y
              then inbox s y @ [NewMessage (format_message (length (messages s))
                     (new_Message socket data now) (username sender) (userId socket))]
              else inbox s y)"
      and "timers ?s' = timers s @ [?t]"
      by (simp_all add: send_message_success [OF *])
    then show ?thesis by blast
  qed
  have ko: "(\<exists>msg. inbox ?s' = (inbox s)(sid socket := inbox s (sid socket) @ [ErrorEvent msg])) \<and>
      timers ?s' = timers s" if "\<not> send_ok s socket data now"
    using send_message_failure [OF that] by blast
  have relays: "inbox (typing_start s socket c) =
     (\<lambda>y. if y \<noteq> sid socket \<and> in_room s c y
          then inbox s y @ [UserTyping (userId socket) (user_username socket)]
          else inbox s y) \<and>
   inbox (typing_stop s socket c) =
     (\<lambda>y. if y \<noteq> sid socket \<and> in_room s c y
          then inbox s y @ [UserStopTyping (userId socket)] else inbox s y) \<and>
   inbox (start_call s socket cd) =
     (\<lambda>y. if y \<noteq> sid socket \<and> in_room s (cd_chatId cd) y
          then inbox s y @ [IncomingCall (userId socket) (user_username socket)
                              (cd_chatId cd) (cd_callType cd)]
          else inbox s y) \<and>
   inbox (accept_call s socket c) =
     (\<lambda>y. if y \<noteq> sid socket \<and> in_room s c y
          then inbox s y @ [CallAccepted (userId socket)] else inbox s y) \<and>
   inbox (decline_call s socket c) =
     (\<lambda>y. if y \<noteq> sid socket \<and> in_room s c y
          then inbox s y @ [CallDeclined (userId socket)] else inbox s y) \<and>
   inbox (end_call s socket c) =
     (\<lambda>y. if y \<noteq> sid socket \<and> in_room s c y
          then inbox s y @ [CallEnded (userId socket)] else inbox s y)"
    by (simp add: relay_defs)
  from ok ko later relays show ?thesis by blast
qed

theorem acknowledgment_of_each_event_witness:
  "send_ok (run state0 (connect 0 ''s1'' ''u1'' @ connect 0 ''s2'' ''u2'')) socket1 hi 10 \<and>
   timers (send_message (run state0 (connect 0 ''s1'' ''u1'' @ connect 0 ''s2'' ''u2''))
      socket1 hi 10) = [\<lparr>t_message = 0, t_chatId = c1, t_socket = ''s1''\<rparr>] \<and>
   \<not> send_ok (run state0 (connect 0 ''s1'' ''u1'' @ connect 0 ''s2'' ''u2'')) socket1 hi_zzz 10 \<and>
   timers (send_message (run state0 (connect 0 ''s1'' ''u1'' @ connect 0 ''s2'' ''u2''))
      socket1 hi_zzz 10) = []"
proof -
  define s where "s = run state0 (connect 0 ''s1'' ''u1'' @ connect 0 ''s2'' ''u2'')"
  have a: "send_ok s socket1 hi 10"
    by (simp add: s_def send_ok_def ev_defs socket1_def)
  have b: "\<not> send_ok s socket1 hi_zzz 10"
    by (simp add: s_def send_ok_def ev_defs socket1_def)
  have c: "timers s = [] \<and> messages s = [] \<and> sid socket1 = ''s1'' \<and> d_chatId hi = c1"
    by (simp add: s_def ev_defs socket1_def)
  from acknowledgment_of_each_event [where s = s and socket = socket1 and data = hi
      and now = 10] a
  have 1: "timers (send_message s socket1 hi 10) =
      timers s @ [\<lparr>t_message = length (messages s), t_chatId = d_chatId hi,
                    t_socket = sid socket1\<rparr>]" by blast
  from acknowledgment_of_each_event [where s = s and socket = socket1 and data = hi_zzz
      and now = 10] b
  have 2: "timers (send_message s socket1 hi_zzz 10) = timers s" by blast
  from a b c 1 2 show ?thesis unfolding s_def [symmetric] by simp
qed

subsection \<open>Fan-out\<close>

text \<open>
  C6, as the claim states it, fails: the online participants of \<open>c1\<close> are \<open>u1\<close>, \<open>u2\<close>
  and \<open>u3\<close>, user \<open>u2\<close> is connected through two sockets, and one send from \<open>u1\<close>
  delivers \<open>new_message\<close> to \<open>u2\<close> twice, once on each socket.
\<close>

theorem fan_out_per_user_counterexample:
  "map_option userId (sockets (run state0 (connect 0 ''s1'' ''u1'' @ connect 0 ''s2'' ''u2'' @
       connect 0 ''s2b'' ''u2'' @ connect 0 ''s3'' ''u3'' @ send 0 ''s1'' hi 10)) ''s2'')
     = Some ''u2'' \<and>
   map_option userId (sockets (run state0 (connect 0 ''s1'' ''u1'' @ connect 0 ''s2'' ''u2'' @
       connect 0 ''s2b'' ''u2'' @ connect 0 ''s3'' ''u3'' @ send 0 ''s1'' hi 10)) ''s2b'')
     = Some ''u2'' \<and>
   inbox (run state0 (connect 0 ''s1'' ''u1'' @ connect 0 ''s2'' ''u2'' @
       connect 0 ''s2b'' ''u2'' @ connect 0 ''s3'' ''u3'' @ send 0 ''s1'' hi 10)) ''s2''
     = [NewMessage hi_formatted] \<and>
   inbox (run state0 (connect 0 ''s1'' ''u1'' @ connect 0 ''s2'' ''u2'' @
       connect 0 ''s2b'' ''u2'' @ connect 0 ''s3'' ''u3'' @ send 0 ''s1'' hi 10)) ''s2b''
     = [NewMessage hi_formatted] \<and>
   map (\<lambda>u. map_option online (users (run state0 (connect 0 ''s1'' ''u1'' @
       connect 0 ''s2'' ''u2'' @ connect 0 ''s2b'' ''u2'' @ connect 0 ''s3'' ''u3'' @
       send 0 ''s1'' hi 10)) u)) [''u1'', ''u2'', ''u3'']
     = [Some True, Some True, Some True]"
  by (simp add: ev_defs hi_formatted_def)

text \<open>
  C6, amended.  On a successful send the fan-out is per socket: the sending socket receives
  exactly one event, \<open>message_sent\<close>, and no \<open>new_message\<close>; every other connected socket
  that has joined the chat's room receives exactly one event, \<open>new_message\<close>; every
  remaining socket receives nothing.
\<close>

theorem fan_out_per_socket:
  assumes "Chat_findById s (d_chatId data) = Inr (Some chat)"
    and "userId socket \<in> set (participants chat)"
    and "validate (new_Message socket data now)"
    and "users s (userId socket) = Some sender"
  shows "inbox (send_message s socket data now) y =
     (if y = sid socket
      then inbox s y @ [MessageSent (format_message (length (messages s))
             (new_Message socket data now) (username sender) (userId socket))]
      else if in_room s (d_chatId data) y
      then inbox s y @ [NewMessage (format_message (length (messages s))
             (new_Message socket data now) (username sender) (userId socket))]
      else inbox s y)"
  by (simp add: send_message_success [OF assms])

theorem fan_out_per_socket_witness:
  "inbox (send_message (run state0 (connect 0 ''s1'' ''u1'' @ connect 0 ''s2'' ''u2'' @
      connect 0 ''s3'' ''u3'')) socket1 hi 10) ''s1'' = [MessageSent hi_formatted] \<and>
   inbox (send_message (run state0 (connect 0 ''s1'' ''u1'' @ connect 0 ''s2'' ''u2'' @
      connect 0 ''s3'' ''u3'')) socket1 hi 10) ''s2'' = [NewMessage hi_formatted] \<and>
   inbox (send_message (run state0 (connect 0 ''s1'' ''u1'' @ connect 0 ''s2'' ''u2'' @
      connect 0 ''s3'' ''u3'')) socket1 hi 10) ''s3'' = [NewMessage hi_formatted]"
proof -
  define s where
    "s = run state0 (connect 0 ''s1'' ''u1'' @ connect 0 ''s2'' ''u2'' @ connect 0 ''s3'' ''u3'')"
  let ?chat = "\<lparr>participants = [''u1'', ''u2'', ''u3''], lastMessage = None\<rparr>"
  let ?u = "\<lparr>username = ''Alice'', online = True, lastSeen = 0, socketId = Some ''s1''\<rparr>"
  have a: "Chat_findById s (d_chatId hi) = Inr (Some ?chat)" by (simp add: s_def ev_defs)
  have b: "userId socket1 \<in> set (participants ?chat)" by (simp add: socket1_def)
  have c: "validate (new_Message socket1 hi 10)" by (simp add: ev_defs socket1_def)
  have d: "users s (userId socket1) = Some ?u" by (simp add: s_def ev_defs socket1_def)
  have e: "inbox s ''s1'' = [] \<and> inbox s ''s2'' = [] \<and> inbox s ''s3'' = []"
    by (simp add: s_def ev_defs)
  have f: "in_room s (d_chatId hi) ''s2'' \<and> in_room s (d_chatId hi) ''s3'' \<and>
           length (messages s) = 0"
    by (simp add: s_def ev_defs)
  show ?thesis
    using fan_out_per_socket [OF a b c d, of "''s1''"]
      fan_out_per_socket [OF a b c d, of "''s2''"]
      fan_out_per_socket [OF a b c d, of "''s3''"] e f
    unfolding s_def [symmetric]
    by (simp add: socket1_def hi_def hi_formatted_def format_message_def new_Message_def)
qed

subsection \<open>Sending when nobody else is connected\<close>

text \<open>
  C2, as the claim states it, fails: \<open>u1\<close> sends into \<open>c1\<close> while \<open>u2\<close> and \<open>u3\<close> are
  offline and have no socket.  The message is stored as \<open>sent\<close>, yet the acknowledgment
  already says \<open>delivered\<close>, and once the timer has fired the stored status is
  \<open>delivered\<close> although nobody received the message.
\<close>

theorem delivered_without_recipient_counterexample:
  "map m_status (messages (run state0 (connect 0 ''s1'' ''u1'' @ send 0 ''s1'' hi 10)))
     = [Sent] \<and>
   inbox (run state0 (connect 0 ''s1'' ''u1'' @ send 0 ''s1'' hi 10)) ''s1''
     = [MessageSent hi_formatted] \<and>
   f_status hi_formatted = Delivered \<and>
   map m_status (messages (run state0 (connect 0 ''s1'' ''u1'' @ send 0 ''s1'' hi 10 @
       timeout 0))) = [Delivered] \<and>
   map_option online (users (run state0 (connect 0 ''s1'' ''u1'' @ send 0 ''s1'' hi 10 @
       timeout 0)) ''u2'') = Some False \<and>
   map_option online (users (run state0 (connect 0 ''s1'' ''u1'' @ send 0 ''s1'' hi 10 @
       timeout 0)) ''u3'') = Some False \<and>
   inbox (run state0 (connect 0 ''s1'' ''u1'' @ send 0 ''s1'' hi 10 @ timeout 0)) ''s2'' = [] \<and>
   inbox (run state0 (connect 0 ''s1'' ''u1'' @ send 0 ''s1'' hi 10 @ timeout 0)) ''s3'' = []"
  by (simp add: ev_defs hi_formatted_def)

text \<open>
  C2, amended.  On a successful send into a chat whose room no other connected socket has
  joined, the message is stored with status \<open>sent\<close> and no socket but the sender's
  receives anything; the sender receives \<open>message_sent\<close> carrying status \<open>delivered\<close>;
  and the timer set by the send, when it runs, writes \<open>delivered\<close> as the stored status,
  whether or not anybody received the message.
\<close>

theorem send_with_empty_room:
  assumes "Chat_findById s (d_chatId data) = Inr (Some chat)"
    and "userId socket \<in> set (participants chat)"
    and "validate (new_Message socket data now)"
    and "users s (userId socket) = Some sender"
    and "\<forall>y. y \<noteq> sid socket \<longrightarrow> \<not> in_room s (d_chatId data) y"
  shows "messages (send_message s socket data now) =
           messages s @ [new_Message socket data now] \<and>
     m_status (new_Message socket data now) = Sent \<and>
     (\<forall>y. y \<noteq> sid socket \<longrightarrow> inbox (send_message s socket data now) y = inbox s y) \<and>
     (\<exists>fm. inbox (send_message s socket data now) (sid socket) =
              inbox s (sid socket) @ [MessageSent fm] \<and> f_status fm = Delivered) \<and>
     timers (send_message s socket data now) =
       timers s @ [\<lparr>t_message = length (messages s), t_chatId = d_chatId data,
                     t_socket = sid socket\<rparr>] \<and>
     m_status (messages (delivered_timeout (send_message s socket data now)
         \<lparr>t_message = length (messages s), t_chatId = d_chatId data, t_socket = sid socket\<rparr>)
       ! length (messages s)) = Delivered"
  using assms(5)
  by (simp add: send_message_success [OF assms(1-4)] new_Message_def format_message_def
      delivered_timeout_def Message_findByIdAndUpdate_def to_emit_def)

theorem send_with_empty_room_witness:
  "messages (send_message (run state0 (connect 0 ''s1'' ''u1'')) socket1 hi 10) =
     [new_Message socket1 hi 10] \<and>
   inbox (send_message (run state0 (connect 0 ''s1'' ''u1'')) socket1 hi 10) ''s2'' = [] \<and>
   m_status (messages (delivered_timeout (send_message (run state0 (connect 0 ''s1'' ''u1''))
       socket1 hi 10) \<lparr>t_message = 0, t_chatId = c1, t_socket = ''s1''\<rparr>) ! 0) = Delivered"
proof -
  define s where "s = run state0 (connect 0 ''s1'' ''u1'')"
  let ?chat = "\<lparr>participants = [''u1'', ''u2'', ''u3''], lastMessage = None\<rparr>"
  let ?u = "\<lparr>username = ''Alice'', online = True, lastSeen = 0, socketId = Some ''s1''\<rparr>"
  have a: "Chat_findById s (d_chatId hi) = Inr (Some ?chat)" by (simp add: s_def ev_defs)
  have b: "userId socket1 \<in> set (participants ?chat)" by (simp add: socket1_def)
  have c: "validate (new_Message socket1 hi 10)" by (simp add: ev_defs socket1_def)
  have d: "users s (userId socket1) = Some ?u" by (simp add: s_def ev_defs socket1_def)
  have e: "\<forall>y. y \<noteq> sid socket1 \<longrightarrow> \<not> in_room s (d_chatId hi) y"
    by (simp add: s_def ev_defs socket1_def)
  have f: "messages s = [] \<and> inbox s ''s2'' = [] \<and> sid socket1 = ''s1'' \<and>
           d_chatId hi = c1"
    by (simp add: s_def ev_defs socket1_def)
  from send_with_empty_room [OF a b c d e] f show ?thesis
    unfolding s_def [symmetric] by simp
qed

subsection \<open>A second connection of the same user\<close>

text \<open>
  C4, as the claim states it, fails: after \<open>u1\<close> has connected as \<open>s1\<close> and again as
  \<open>s1b\<close>, both sockets are connected, both belong to \<open>u1\<close>, both are in the room of
  \<open>c1\<close>, and the older one still receives what the newer one relays.
\<close>

theorem second_connection_counterexample:
  "map_option userId (sockets (run state0 (connect 0 ''s1'' ''u1'' @ connect 0 ''s1b'' ''u1''))
      ''s1'') = Some ''u1'' \<and>
   map_option userId (sockets (run state0 (connect 0 ''s1'' ''u1'' @ connect 0 ''s1b'' ''u1''))
      ''s1b'') = Some ''u1'' \<and>
   in_room (run state0 (connect 0 ''s1'' ''u1'' @ connect 0 ''s1b'' ''u1'')) c1 ''s1'' \<and>
   in_room (run state0 (connect 0 ''s1'' ''u1'' @ connect 0 ''s1b'' ''u1'')) c1 ''s1b'' \<and>
   inbox (run state0 (connect 0 ''s1'' ''u1'' @ connect 0 ''s1b'' ''u1'' @
      [TypingStart ''s1b'' c1])) ''s1'' = [UserTyping ''u1'' ''Alice'']"
  by (simp add: ev_defs)

text \<open>
  C4, amended.  The connection handler closes nothing: every other entry of the socket
  table is left as it was and nothing is emitted.  The user's document then holds exactly
  one socket id, the new socket's, with \<open>online\<close> set; the new socket is connected.
\<close>

theorem connection_keeps_prior_connections:
  assumes "users s (userId socket) = Some usr"
  shows "users (connection s socket) (userId socket) =
           Some (usr\<lparr>online := True, socketId := Some (sid socket)\<rparr>) \<and>
         (\<forall>y. y \<noteq> sid socket \<longrightarrow> sockets (connection s socket) y = sockets s y) \<and>
         sockets (connection s socket) (sid socket) \<noteq> None \<and>
         inbox (connection s socket) = inbox s"
  using assms by (simp add: connection_def User_findByIdAndUpdate_def Let_def)

theorem connection_keeps_prior_connections_witness:
  "users (connection (run state0 (connect 0 ''s1'' ''u1''))
       \<lparr>sid = ''s1b'', userId = ''u1'', user_username = ''Alice'', rooms = {''s1b''}\<rparr>) ''u1''
     = Some \<lparr>username = ''Alice'', online = True, lastSeen = 0, socketId = Some ''s1b''\<rparr> \<and>
   sockets (connection (run state0 (connect 0 ''s1'' ''u1''))
       \<lparr>sid = ''s1b'', userId = ''u1'', user_username = ''Alice'', rooms = {''s1b''}\<rparr>) ''s1''
     = Some socket1"
proof -
  define s where "s = run state0 (connect 0 ''s1'' ''u1'')"
  let ?k = "\<lparr>sid = ''s1b'', userId = ''u1'', user_username = ''Alice'', rooms = {''s1b''}\<rparr>"
  let ?u = "\<lparr>username = ''Alice'', online = True, lastSeen = 0, socketId = Some ''s1''\<rparr>"
  have a: "users s (userId ?k) = Some ?u" by (simp add: s_def ev_defs)
  have b: "sockets s ''s1'' = Some socket1"
    by (simp add: s_def ev_defs socket1_def insert_commute)
  from connection_keeps_prior_connections [OF a] b show ?thesis
    unfolding s_def [symmetric] by simp
qed

subsection \<open>Handlers that nothing interrupts\<close>

text \<open>
  The task list is touched by no handler, so it can be set before or after one runs.
\<close>

lemma in_room_tasks: "in_room (s\<lparr>tasks := ts\<rparr>) c y = in_room s c y"
  by (simp add: in_room_def)

lemma emit_tasks: "emit (s\<lparr>tasks := ts\<rparr>) x ev = (emit s x ev)\<lparr>tasks := ts\<rparr>"
  by (simp add: emit_def)

lemma to_emit_tasks: "to_emit (s\<lparr>tasks := ts\<rparr>) x c ev = (to_emit s x c ev)\<lparr>tasks := ts\<rparr>"
  by (simp add: to_emit_def in_room_def cong del: if_weak_cong)

lemma broadcast_emit_tasks:
  "broadcast_emit (s\<lparr>tasks := ts\<rparr>) x ev = (broadcast_emit s x ev)\<lparr>tasks := ts\<rparr>"
  by (simp add: broadcast_emit_def cong del: if_weak_cong)

lemma User_findByIdAndUpdate_tasks:
  "User_findByIdAndUpdate (s\<lparr>tasks := ts\<rparr>) u f = (User_findByIdAndUpdate s u f)\<lparr>tasks := ts\<rparr>"
  by (simp add: User_findByIdAndUpdate_def split: option.splits)

lemma catch_tasks:
  "catch socket (map_sum (map_prod id (\<lambda>s. s\<lparr>tasks := ts\<rparr>)) (\<lambda>s. s\<lparr>tasks := ts\<rparr>) r)
     = (catch socket r)\<lparr>tasks := ts\<rparr>"
  by (cases r) (auto simp add: catch_def emit_tasks)

lemma fan_out_tasks:
  "fan_out (s\<lparr>tasks := ts\<rparr>) socket data now i sender =
     map_sum (map_prod id (\<lambda>s. s\<lparr>tasks := ts\<rparr>)) (\<lambda>s. s\<lparr>tasks := ts\<rparr>)
       (fan_out s socket data now i sender)"
  by (simp add: fan_out_def Let_def to_emit_tasks emit_tasks emit_def split: option.splits)

lemma resume_tasks:
  "resume (s\<lparr>tasks := ts\<rparr>) t = map_prod (\<lambda>s. s\<lparr>tasks := ts\<rparr>) id (resume s t)"
proof (cases t)
  case (ConnectionUpdate socket)
  then show ?thesis by (simp add: connection_update_def User_findByIdAndUpdate_tasks)
next
  case (ConnectionFind socket)
  then show ?thesis by (simp add: connection_join_def userChats_def split: option.splits)
next
  case (SendFindChat socket data now)
  then show ?thesis
    by (simp add: Chat_findById_def catch_def emit_tasks split: option.splits)
next
  case (SendSave socket data now chat)
  then show ?thesis
    by (simp add: Message_save_def catch_def emit_tasks)
next
  case (SendPopulate socket data now chat i)
  then show ?thesis by simp
next
  case (SendChatSave socket data now chat i sender)
  have "save_lastMessage (s\<lparr>tasks := ts\<rparr>) socket data now chat =
        (save_lastMessage s socket data now chat)\<lparr>tasks := ts\<rparr>"
    by (simp add: save_lastMessage_def)
  with SendChatSave show ?thesis
    by (simp add: fan_out_tasks catch_tasks)
next
  case (DisconnectUpdate socket now)
  then show ?thesis
    by (simp add: disconnect_update_def User_findByIdAndUpdate_tasks broadcast_emit_tasks)
next
  case (TimeoutUpdate tm)
  then show ?thesis
    by (simp add: delivered_timeout_def Message_findByIdAndUpdate_def to_emit_def in_room_def
        cong del: if_weak_cong)
qed

lemma resume_keeps_tasks: "tasks (fst (resume s t)) = tasks s"
proof (cases t)
  case (SendChatSave socket data now chat i sender)
  then show ?thesis
    by (simp add: catch_def fan_out_def save_lastMessage_def emit_def to_emit_def Let_def
        split: option.splits)
qed (simp_all add: connection_update_def connection_join_def User_findByIdAndUpdate_def
      Chat_findById_def catch_def emit_def Message_save_def disconnect_update_def
      broadcast_emit_def delivered_timeout_def Message_findByIdAndUpdate_def to_emit_def
      split: option.splits)

text \<open>
  Resuming the task that was suspended last.
\<close>

lemma step_Resume_last:
  "step (s\<lparr>tasks := tasks s @ [t]\<rparr>) (Resume (length (tasks s))) =
     (case resume s t of
        (s', None) \<Rightarrow> s'
      | (s', Some t') \<Rightarrow> s'\<lparr>tasks := tasks s @ [t']\<rparr>)"
proof (cases "resume s t")
  case (Pair s' nxt)
  with resume_keeps_tasks [of s t] have "tasks s' = tasks s" by simp
  then have "s'\<lparr>tasks := tasks s\<rparr> = s'" by (metis state.surjective state.update_convs(8))
  with Pair show ?thesis
    by (cases nxt) (simp_all add: resume_tasks)
qed


lemma send_uninterrupted:
  assumes "sockets s x = Some socket" and "x \<in> listeners s"
  shows "run s (send (length (tasks s)) x data now) = send_message s socket data now"
proof -
  let ?n = "length (tasks s)"
  have 0: "run s (send ?n x data now) =
      step (step (step (step (step s (SendMessage x data now)) (Resume ?n)) (Resume ?n))
        (Resume ?n)) (Resume ?n)"
    by (simp add: send_def del: step.simps)
  have 1: "step s (SendMessage x data now) = s\<lparr>tasks := tasks s @ [SendFindChat socket data now]\<rparr>"
    using assms by (simp add: on_def suspend_def)
  have idle: "step s' (Resume ?n) = s'" if "tasks s' = tasks s" for s'
    using that by simp
  have last: "step (s'\<lparr>tasks := tasks s @ [t]\<rparr>) (Resume ?n) =
      (case resume s' t of (s'', None) \<Rightarrow> s'' | (s'', Some t') \<Rightarrow> s''\<lparr>tasks := tasks s @ [t']\<rparr>)"
    if "tasks s' = tasks s" for s' t
    using step_Resume_last [of s' t] unfolding that .
  have e: "tasks (emit s' y ev) = tasks s'" for s' y ev by (simp add: emit_def)
  show ?thesis
  proof (cases "Chat_findById s (d_chatId data)")
    case (Inl err)
    then have 2: "step (s\<lparr>tasks := tasks s @ [SendFindChat socket data now]\<rparr>) (Resume ?n) =
        send_message s socket data now"
      by (simp add: last send_message_def send_message_try_def del: step.simps)
    have "tasks (send_message s socket data now) = tasks s"
      using Inl by (simp add: send_message_def send_message_try_def catch_def e)
    then show ?thesis by (simp only: 0 1 2 idle)
  next
    case (Inr found)
    show ?thesis
    proof (cases "case found of None \<Rightarrow> True | Some chat \<Rightarrow> userId socket \<notin> set (participants chat)")
      case True
      with Inr have 2: "step (s\<lparr>tasks := tasks s @ [SendFindChat socket data now]\<rparr>) (Resume ?n) =
          send_message s socket data now"
        by (auto simp add: last send_message_def send_message_try_def catch_def
            simp del: step.simps split: option.splits)
      have "tasks (send_message s socket data now) = tasks s"
        using Inr True
        by (auto simp add: send_message_def send_message_try_def catch_def e
            split: option.splits)
      then show ?thesis by (simp only: 0 1 2 idle)
    next
      case False
      then obtain chat where chat: "found = Some chat" "userId socket \<in> set (participants chat)"
        by (auto split: option.splits)
      with Inr have 2: "step (s\<lparr>tasks := tasks s @ [SendFindChat socket data now]\<rparr>) (Resume ?n) =
          s\<lparr>tasks := tasks s @ [SendSave socket data now chat]\<rparr>"
        by (simp add: last del: step.simps)
      show ?thesis
      proof (cases "validate (new_Message socket data now)")
        case False
        then have 3: "step (s\<lparr>tasks := tasks s @ [SendSave socket data now chat]\<rparr>) (Resume ?n) =
            send_message s socket data now"
          using Inr chat
          by (simp add: last send_message_def send_message_try_def Message_save_def
              del: step.simps)
        have "tasks (send_message s socket data now) = tasks s"
          using Inr chat False
          by (simp add: send_message_def send_message_try_def Message_save_def catch_def e)
        then show ?thesis by (simp only: 0 1 2 3 idle)
      next
        case True
        define s1 where "s1 = s\<lparr>messages := messages s @ [new_Message socket data now]\<rparr>"
        have t1: "tasks s1 = tasks s" by (simp add: s1_def)
        from True have 3: "step (s\<lparr>tasks := tasks s @ [SendSave socket data now chat]\<rparr>)
              (Resume ?n) =
            s1\<lparr>tasks := tasks s @ [SendPopulate socket data now chat (length (messages s))]\<rparr>"
          by (simp add: last Message_save_def s1_def del: step.simps)
        have 4: "step (s1\<lparr>tasks := tasks s @
              [SendPopulate socket data now chat (length (messages s))]\<rparr>) (Resume ?n) =
            s1\<lparr>tasks := tasks s @ [SendChatSave socket data now chat (length (messages s))
                  (users s1 (userId socket))]\<rparr>"
          by (simp add: last [OF t1] del: step.simps)
        have 5: "step (s1\<lparr>tasks := tasks s @ [SendChatSave socket data now chat
              (length (messages s)) (users s1 (userId socket))]\<rparr>) (Resume ?n) =
            send_message s socket data now"
        proof -
          have "send_message s socket data now =
              catch socket (fan_out (save_lastMessage s1 socket data now chat) socket data now
                (length (messages s)) (users s1 (userId socket)))"
            using Inr chat True
            by (simp add: send_message_def send_message_try_def Message_save_def s1_def)
          then show ?thesis by (simp add: last [OF t1] del: step.simps)
        qed
        show ?thesis by (simp only: 0 1 2 3 4 5)
      qed
    qed
  qed
qed


lemma timeout_uninterrupted:
  assumes "timers s = t # ts"
  shows "run s (timeout (length (tasks s))) = delivered_timeout (s\<lparr>timers := ts\<rparr>) t"
proof -
  define s1 where "s1 = s\<lparr>timers := ts\<rparr>"
  have t1: "tasks s1 = tasks s" by (simp add: s1_def)
  have 1: "step s Timeout = s1\<lparr>tasks := tasks s @ [TimeoutUpdate t]\<rparr>"
    using assms by (simp add: s1_def suspend_def)
  have 2: "step (s1\<lparr>tasks := tasks s @ [TimeoutUpdate t]\<rparr>) (Resume (length (tasks s)))
           = delivered_timeout s1 t"
    using step_Resume_last [of s1 "TimeoutUpdate t"] unfolding t1
    by (simp del: step.simps)
  have "run s (timeout (length (tasks s))) = step (step s Timeout) (Resume (length (tasks s)))"
    by (simp add: timeout_def del: step.simps)
  then show ?thesis by (simp only: 1 2) (simp only: s1_def)
qed

subsection \<open>Presence\<close>


















subsection \<open>The status of a stored message\<close>











end
